theory Spec2Isabelle
  imports Main
begin

section \<open>JavaScript values\<close>

text \<open>
  The client of \<^verbatim>\<open>src/index.ts\<close> moves JSON-like data between its caller and
  one HTTP endpoint. Values typed \<^verbatim>\<open>any\<close> in the source are modelled by
  \<open>jsval\<close>: the JSON values together with \<^verbatim>\<open>undefined\<close>. Numbers are modelled
  as integers. An object is the list of its own properties in the order JavaScript
  enumerates them, with distinct keys: the array indices in ascending order, then the
  other names in the order of their creation.
\<close>

datatype jsval =
    JUndefined
  | JNull
  | JBool bool
  | JNum int
  | JStr string
  | JArr "jsval list"
  | JObj "(string \<times> jsval) list"

type_synonym obj = "(string \<times> jsval) list"

subsection \<open>Property order\<close>

text \<open>
  An array index is the canonical decimal numeral of an integer from 0 to
  4294967294.
\<close>

definition is_digit :: "char \<Rightarrow> bool" where
  "is_digit c = (48 \<le> (of_char c :: int) \<and> (of_char c :: int) \<le> 57)"

definition decimal :: "string \<Rightarrow> int" where
  "decimal k = foldl (\<lambda>n c. 10 * n + (of_char c - 48)) 0 k"

definition array_index :: "string \<Rightarrow> int option" where
  "array_index k =
     (if k \<noteq> [] \<and> list_all is_digit k \<and> (k = ''0'' \<or> hd k \<noteq> CHR ''0'') \<and>
         decimal k < 2 ^ 32 - 1
      then Some (decimal k) else None)"

text \<open>Overwriting an existing property: it keeps its place.\<close>

fun replace_prop :: "obj \<Rightarrow> string \<Rightarrow> jsval \<Rightarrow> obj" where
  "replace_prop [] k v = []"
| "replace_prop ((k', v') # ps) k v =
     (if k' = k then (k, v) # ps else (k', v') # replace_prop ps k v)"

text \<open>A new array index \<open>n\<close> goes behind the smaller indices and before everything else.\<close>

fun insert_index :: "int \<Rightarrow> string \<times> jsval \<Rightarrow> obj \<Rightarrow> obj" where
  "insert_index n p [] = [p]"
| "insert_index n p (q # ps) =
     (case array_index (fst q) of
        Some m \<Rightarrow> if m < n then q # insert_index n p ps else p # q # ps
      | None \<Rightarrow> p # q # ps)"

text \<open>
  Assigning property \<open>k\<close> of an object: an existing property is overwritten, a new
  array index is put in its numeric place, any other new name comes last.
\<close>

definition obj_set :: "obj \<Rightarrow> string \<Rightarrow> jsval \<Rightarrow> obj" where
  "obj_set ps k v =
     (if k \<in> set (map fst ps) then replace_prop ps k v
      else case array_index k of
             Some n \<Rightarrow> insert_index n (k, v) ps
           | None \<Rightarrow> ps @ [(k, v)])"

text \<open>
  The object literal \<^verbatim>\<open>{ ...base, ...params }\<close>: the properties of \<open>params\<close> are
  assigned one after the other on top of \<open>base\<close>.
\<close>

definition spread :: "obj \<Rightarrow> obj \<Rightarrow> obj" where
  "spread base params = foldl (\<lambda>acc (k, v). obj_set acc k v) base params"

text \<open>JavaScript truthiness, as tested by \<^verbatim>\<open>!x\<close> and \<^verbatim>\<open>x || y\<close>.\<close>

fun truthy :: "jsval \<Rightarrow> bool" where
  "truthy JUndefined = False"
| "truthy JNull = False"
| "truthy (JBool b) = b"
| "truthy (JNum n) = (n \<noteq> 0)"
| "truthy (JStr s) = (s \<noteq> [])"
| "truthy (JArr xs) = True"
| "truthy (JObj ps) = True"

subsection \<open>Reading a property\<close>

text \<open>
  The six property names that the client reads from a parsed response:
  \<^verbatim>\<open>data.error\<close> in \<^verbatim>\<open>_request\<close>, and \<^verbatim>\<open>result.value\<close>,
  \<^verbatim>\<open>result.stores\<close>, \<^verbatim>\<open>result.values\<close>, \<^verbatim>\<open>result.entries\<close>,
  \<^verbatim>\<open>result.keys\<close> in the projecting methods.
\<close>

datatype field =
  Field_error | Field_value | Field_stores | Field_values | Field_entries | Field_keys

fun field_name :: "field \<Rightarrow> string" where
  "field_name Field_error = ''error''"
| "field_name Field_value = ''value''"
| "field_name Field_stores = ''stores''"
| "field_name Field_values = ''values''"
| "field_name Field_entries = ''entries''"
| "field_name Field_keys = ''keys''"

text \<open>
  What such a read yields: a value, or a built-in function object. The only built-in
  functions under the six names are \<^verbatim>\<open>keys\<close>, \<^verbatim>\<open>values\<close> and
  \<^verbatim>\<open>entries\<close> of \<^verbatim>\<open>Array.prototype\<close>.
\<close>

datatype jsref = Value jsval | Builtin string

text \<open>
  The ways a call can fail: \<^verbatim>\<open>new Error(message)\<close> thrown by
  \<^verbatim>\<open>_request\<close>, a rejected \<^verbatim>\<open>fetch\<close>, a rejected
  \<^verbatim>\<open>response.json()\<close>, and the \<^verbatim>\<open>TypeError\<close> of a property read on
  \<^verbatim>\<open>null\<close> or \<^verbatim>\<open>undefined\<close>. The message of an \<^verbatim>\<open>Error\<close> is the
  string it is given, or the string conversion of another value, which is left to the
  engine.
\<close>

datatype message = Text string | StringOf jsref

datatype error = Error message | TypeError | FetchRejected | JsonRejected

text \<open>
  \<^verbatim>\<open>x.f\<close> for one of the six names: \<^verbatim>\<open>null\<close> and \<^verbatim>\<open>undefined\<close>
  throw; an object gives its own property, and \<^verbatim>\<open>undefined\<close> when it has none
  (\<^verbatim>\<open>Object.prototype\<close> has none of the six); an array inherits
  \<^verbatim>\<open>keys\<close>, \<^verbatim>\<open>values\<close> and \<^verbatim>\<open>entries\<close>; a string, a number
  and a boolean have none of the six.
\<close>

fun get_prop :: "jsval \<Rightarrow> field \<Rightarrow> error + jsref" where
  "get_prop JUndefined f = Inl TypeError"
| "get_prop JNull f = Inl TypeError"
| "get_prop (JObj ps) f =
     Inr (Value (case map_of ps (field_name f) of None \<Rightarrow> JUndefined | Some v \<Rightarrow> v))"
| "get_prop (JArr xs) f =
     Inr (if f = Field_keys \<or> f = Field_values \<or> f = Field_entries
          then Builtin (field_name f) else Value JUndefined)"
| "get_prop (JBool b) f = Inr (Value JUndefined)"
| "get_prop (JNum n) f = Inr (Value JUndefined)"
| "get_prop (JStr s) f = Inr (Value JUndefined)"

fun truthy_ref :: "jsref \<Rightarrow> bool" where
  "truthy_ref (Value v) = truthy v"
| "truthy_ref (Builtin n) = True"

definition js_or :: "jsref \<Rightarrow> jsref \<Rightarrow> jsref" where
  "js_or a b = (if truthy_ref a then a else b)"

text \<open>The message that \<^verbatim>\<open>new Error(x)\<close> stores for a defined \<open>x\<close>.\<close>

fun message_of :: "jsref \<Rightarrow> message" where
  "message_of (Value (JStr s)) = Text s"
| "message_of r = StringOf r"

subsection \<open>JSON encoding\<close>

text \<open>
  \<^verbatim>\<open>JSON.stringify\<close> is modelled by the JSON tree that its text denotes: a
  property whose value is \<^verbatim>\<open>undefined\<close> is left out of an object, an
  \<^verbatim>\<open>undefined\<close> array element is written \<^verbatim>\<open>null\<close>.
\<close>

fun json_value :: "jsval \<Rightarrow> jsval" where
  "json_value (JArr xs) =
     JArr (map (\<lambda>x. if x = JUndefined then JNull else json_value x) xs)"
| "json_value (JObj ps) =
     JObj (map (\<lambda>p. (fst p, json_value (snd p))) (filter (\<lambda>p. snd p \<noteq> JUndefined) ps))"
| "json_value v = v"

section \<open>The client\<close>

text \<open>
  \<^verbatim>\<open>KVStoreOptions\<close> and the four private fields of \<^verbatim>\<open>class KVStore\<close>. The class
  keeps the three options and the endpoint, so its record extends the options' record.
\<close>

record KVStoreOptions =
  accessToken :: string
  storeName :: string
  dbName :: string

record KVStore = KVStoreOptions +
  apiUrl :: string

definition constructor :: "string \<Rightarrow> KVStoreOptions \<Rightarrow> KVStore" where
  "constructor apiUrl' options =
     \<lparr>accessToken = accessToken options, storeName = storeName options,
      dbName = dbName options, apiUrl = apiUrl'\<rparr>"

text \<open>\<^verbatim>\<open>export function store(apiUrl, options)\<close>, the deprecated factory.\<close>

definition store :: "string \<Rightarrow> KVStoreOptions \<Rightarrow> KVStore" where
  "store apiUrl' options = constructor apiUrl' options"

subsection \<open>The transport\<close>

text \<open>
  One call of \<^verbatim>\<open>fetch(url, init)\<close>. The body is the JSON tree of the text passed
  as \<^verbatim>\<open>init.body\<close>.
\<close>

record fetch_call =
  url :: string
  http_method :: string
  headers :: "(string \<times> string) list"
  body :: jsval

text \<open>
  What \<^verbatim>\<open>fetch\<close> answers: the promise rejects, or it resolves to a response with
  its \<^verbatim>\<open>ok\<close> flag and the result of \<^verbatim>\<open>response.json()\<close>, \<open>None\<close>
  when the text is not JSON. The parsed body is any value: its declared type
  \<^verbatim>\<open>APIResponse\<close> is not checked at run time.
\<close>

datatype fetch_result = Rejected | Response bool "jsval option"

type_synonym fetch = "fetch_call \<Rightarrow> fetch_result"

text \<open>
  An operation performs exactly one \<^verbatim>\<open>fetch\<close>; its outcome is the call it made,
  paired with the settlement of its promise.
\<close>

type_synonym 'a outcome = "fetch_call \<times> (error + 'a)"

text \<open>\<^verbatim>\<open>private async _request(action, params = {})\<close>\<close>

definition request :: "KVStore \<Rightarrow> fetch \<Rightarrow> string \<Rightarrow> obj \<Rightarrow> jsval outcome" where
  "request this fetch action params =
     (let call = \<lparr>url = apiUrl this, http_method = ''POST'',
                  headers = [(''Content-Type'', ''application/json''),
                             (''Authorization'', ''Bearer '' @ accessToken this)],
                  body = json_value (JObj (spread
                           [(''action'', JStr action),
                            (''dbName'', JStr (dbName this)),
                            (''storeName'', JStr (storeName this))] params))\<rparr>
      in (call,
          case fetch call of
            Rejected \<Rightarrow> Inl FetchRejected
          | Response ok parsed \<Rightarrow>
              (case parsed of
                 None \<Rightarrow> Inl JsonRejected
               | Some data \<Rightarrow>
                   if \<not> ok
                   then (case get_prop data Field_error of
                           Inl e \<Rightarrow> Inl e
                         | Inr err \<Rightarrow>
                             Inl (Error (message_of
                               (js_or err (Value (JStr ''Request failed''))))))
                   else Inr data)))"

text \<open>\<^verbatim>\<open>return result.field\<close> after an awaited \<^verbatim>\<open>_request\<close>.\<close>

definition project :: "field \<Rightarrow> jsval outcome \<Rightarrow> jsref outcome" where
  "project f out =
     (fst out, case snd out of Inl e \<Rightarrow> Inl e | Inr result \<Rightarrow> get_prop result f)"

subsection \<open>The public operations\<close>

text \<open>
  Each method of \<^verbatim>\<open>class KVStore\<close>, in the order of the source. A parameter
  named like a field of the client carries a prime.
\<close>

definition register :: "KVStore \<Rightarrow> fetch \<Rightarrow> obj \<Rightarrow> jsval outcome" where
  "register this fetch formData = request this fetch ''register'' formData"

definition login :: "KVStore \<Rightarrow> fetch \<Rightarrow> obj \<Rightarrow> jsval outcome" where
  "login this fetch formData = request this fetch ''login'' formData"

definition generateToken :: "KVStore \<Rightarrow> fetch \<Rightarrow> jsval outcome" where
  "generateToken this fetch = request this fetch ''generate-token'' []"

definition getUserInfo :: "KVStore \<Rightarrow> fetch \<Rightarrow> jsval outcome" where
  "getUserInfo this fetch = request this fetch ''get-user-info'' []"

definition getDatabases :: "KVStore \<Rightarrow> fetch \<Rightarrow> jsval outcome" where
  "getDatabases this fetch = request this fetch ''get-databases'' []"

definition createDatabase :: "KVStore \<Rightarrow> fetch \<Rightarrow> string \<Rightarrow> jsval outcome" where
  "createDatabase this fetch name =
     request this fetch ''create-database'' [(''name'', JStr name)]"

definition createStore :: "KVStore \<Rightarrow> fetch \<Rightarrow> string \<Rightarrow> string \<Rightarrow> jsval outcome" where
  "createStore this fetch dbName' storeName' =
     request this fetch ''create-store''
       [(''dbName'', JStr dbName'), (''storeName'', JStr storeName')]"

definition set_op :: "KVStore \<Rightarrow> fetch \<Rightarrow> string \<Rightarrow> jsval \<Rightarrow> jsval outcome" where
  "set_op this fetch key val =
     request this fetch ''set'' [(''key'', JStr key), (''value'', val)]"

definition get :: "KVStore \<Rightarrow> fetch \<Rightarrow> string \<Rightarrow> jsref outcome" where
  "get this fetch key =
     project Field_value (request this fetch ''get'' [(''key'', JStr key)])"

definition getStores :: "KVStore \<Rightarrow> fetch \<Rightarrow> string \<Rightarrow> jsref outcome" where
  "getStores this fetch dbName' =
     project Field_stores (request this fetch ''get-stores'' [(''dbName'', JStr dbName')])"

text \<open>\<^verbatim>\<open>interface KVEntry { key: string; value: any }\<close> and its object.\<close>

type_synonym KVEntry = "string \<times> jsval"

definition entry_obj :: "KVEntry \<Rightarrow> jsval" where
  "entry_obj e = JObj [(''key'', JStr (fst e)), (''value'', snd e)]"

definition setMany :: "KVStore \<Rightarrow> fetch \<Rightarrow> KVEntry list \<Rightarrow> jsval outcome" where
  "setMany this fetch es =
     request this fetch ''setMany'' [(''entries'', JArr (map entry_obj es))]"

definition getMany :: "KVStore \<Rightarrow> fetch \<Rightarrow> string list \<Rightarrow> jsref outcome" where
  "getMany this fetch ks =
     project Field_values (request this fetch ''getMany'' [(''keys'', JArr (map JStr ks))])"

definition update :: "KVStore \<Rightarrow> fetch \<Rightarrow> string \<Rightarrow> jsval \<Rightarrow> jsval outcome" where
  "update this fetch key val =
     request this fetch ''update'' [(''key'', JStr key), (''value'', val)]"

definition delete :: "KVStore \<Rightarrow> fetch \<Rightarrow> string \<Rightarrow> jsval outcome" where
  "delete this fetch key = request this fetch ''delete'' [(''key'', JStr key)]"

definition deleteMany :: "KVStore \<Rightarrow> fetch \<Rightarrow> string list \<Rightarrow> jsval outcome" where
  "deleteMany this fetch ks =
     request this fetch ''deleteMany'' [(''keys'', JArr (map JStr ks))]"

text \<open>
  \<^verbatim>\<open>entries\<close> tests its two arguments with \<^verbatim>\<open>!\<close> before it uses them, so it
  is modelled on every JavaScript value; a caller that respects the signature passes
  strings.
\<close>

definition entries :: "KVStore \<Rightarrow> fetch \<Rightarrow> jsval \<Rightarrow> jsval \<Rightarrow> jsref outcome" where
  "entries this fetch dbName' storeName' =
     (let dbName'' = (if \<not> truthy dbName' then JStr (dbName this) else dbName');
          storeName'' = (if \<not> truthy storeName' then JStr (storeName this) else storeName')
      in project Field_entries (request this fetch ''entries''
           [(''dbName'', dbName''), (''storeName'', storeName'')]))"

definition keys :: "KVStore \<Rightarrow> fetch \<Rightarrow> jsref outcome" where
  "keys this fetch = project Field_keys (request this fetch ''keys'' [])"

definition values_op :: "KVStore \<Rightarrow> fetch \<Rightarrow> jsref outcome" where
  "values_op this fetch = project Field_values (request this fetch ''values'' [])"

definition clear :: "KVStore \<Rightarrow> fetch \<Rightarrow> jsval outcome" where
  "clear this fetch = request this fetch ''clear'' []"

definition deleteStore :: "KVStore \<Rightarrow> fetch \<Rightarrow> string \<Rightarrow> string \<Rightarrow> jsval outcome" where
  "deleteStore this fetch dbName' storeName' =
     request this fetch ''delete-store''
       [(''dbName'', JStr dbName'), (''storeName'', JStr storeName')]"

definition deleteDatabase :: "KVStore \<Rightarrow> fetch \<Rightarrow> string \<Rightarrow> jsval outcome" where
  "deleteDatabase this fetch dbName' =
     request this fetch ''delete-database'' [(''dbName'', JStr dbName')]"

subsection \<open>Calls of the public interface\<close>

text \<open>
  A call of one public method with arguments of the declared types, so that a
  statement about every operation is a statement about every \<open>operation\<close>. A method
  that resolves to the raw response resolves to the parsed body.
\<close>

datatype operation =
    Register obj
  | Login obj
  | GenerateToken
  | GetUserInfo
  | GetDatabases
  | CreateDatabase string
  | CreateStore string string
  | Set string jsval
  | Get string
  | GetStores string
  | SetMany "KVEntry list"
  | GetMany "string list"
  | Update string jsval
  | Delete string
  | DeleteMany "string list"
  | Entries string string
  | Keys
  | Values
  | Clear
  | DeleteStore string string
  | DeleteDatabase string

definition raw :: "jsval outcome \<Rightarrow> jsref outcome" where
  "raw out = (fst out, case snd out of Inl e \<Rightarrow> Inl e | Inr data \<Rightarrow> Inr (Value data))"

fun run :: "KVStore \<Rightarrow> fetch \<Rightarrow> operation \<Rightarrow> jsref outcome" where
  "run this fetch (Register formData) = raw (register this fetch formData)"
| "run this fetch (Login formData) = raw (login this fetch formData)"
| "run this fetch GenerateToken = raw (generateToken this fetch)"
| "run this fetch GetUserInfo = raw (getUserInfo this fetch)"
| "run this fetch GetDatabases = raw (getDatabases this fetch)"
| "run this fetch (CreateDatabase name) = raw (createDatabase this fetch name)"
| "run this fetch (CreateStore d s) = raw (createStore this fetch d s)"
| "run this fetch (Set k v) = raw (set_op this fetch k v)"
| "run this fetch (Get k) = get this fetch k"
| "run this fetch (GetStores d) = getStores this fetch d"
| "run this fetch (SetMany es) = raw (setMany this fetch es)"
| "run this fetch (GetMany ks) = getMany this fetch ks"
| "run this fetch (Update k v) = raw (update this fetch k v)"
| "run this fetch (Delete k) = raw (delete this fetch k)"
| "run this fetch (DeleteMany ks) = raw (deleteMany this fetch ks)"
| "run this fetch (Entries d s) = entries this fetch (JStr d) (JStr s)"
| "run this fetch Keys = keys this fetch"
| "run this fetch Values = values_op this fetch"
| "run this fetch Clear = raw (clear this fetch)"
| "run this fetch (DeleteStore d s) = raw (deleteStore this fetch d s)"
| "run this fetch (DeleteDatabase d) = raw (deleteDatabase this fetch d)"

text \<open>The call an operation sends, its settlement, and one field of a sent body.\<close>

definition sent :: "'a outcome \<Rightarrow> fetch_call" where
  "sent out = fst out"

definition settled :: "'a outcome \<Rightarrow> error + 'a" where
  "settled out = snd out"

definition body_field :: "fetch_call \<Rightarrow> string \<Rightarrow> jsval option" where
  "body_field call k = (case body call of JObj ps \<Rightarrow> map_of ps k | _ \<Rightarrow> None)"

section \<open>Classifying the calls\<close>

text \<open>
  The five operations that take a database or store name as an argument, the form data
  of \<^verbatim>\<open>register\<close> and \<^verbatim>\<open>login\<close>, and the names that
  \<^verbatim>\<open>createStore\<close>, \<^verbatim>\<open>getStores\<close>, \<^verbatim>\<open>deleteStore\<close> and
  \<^verbatim>\<open>deleteDatabase\<close> pass on as they are given.
\<close>

fun takes_names :: "operation \<Rightarrow> bool" where
  "takes_names (CreateStore d s) = True"
| "takes_names (GetStores d) = True"
| "takes_names (Entries d s) = True"
| "takes_names (DeleteStore d s) = True"
| "takes_names (DeleteDatabase d) = True"
| "takes_names _ = False"

fun form_data :: "operation \<Rightarrow> obj" where
  "form_data (Register formData) = formData"
| "form_data (Login formData) = formData"
| "form_data _ = []"

fun names_given :: "operation \<Rightarrow> string list" where
  "names_given (CreateStore d s) = [d, s]"
| "names_given (GetStores d) = [d]"
| "names_given (DeleteStore d s) = [d, s]"
| "names_given (DeleteDatabase d) = [d]"
| "names_given _ = []"

text \<open>
  The field of a parsed body under a name: the own property of an object, and
  \<^verbatim>\<open>undefined\<close> for an object without it and for any other value.
\<close>

definition field_of :: "jsval \<Rightarrow> string \<Rightarrow> jsval" where
  "field_of data k =
     (case data of
        JObj ps \<Rightarrow> (case map_of ps k of None \<Rightarrow> JUndefined | Some v \<Rightarrow> v)
      | _ \<Rightarrow> JUndefined)"

text \<open>The action names of the catalogue: the first argument of each \<^verbatim>\<open>_request\<close>.\<close>

definition actions :: "string list" where
  "actions =
     [''register'', ''login'', ''generate-token'', ''get-user-info'', ''get-databases'',
      ''create-database'', ''create-store'', ''set'', ''get'', ''get-stores'', ''setMany'',
      ''getMany'', ''update'', ''delete'', ''deleteMany'', ''entries'', ''keys'', ''values'',
      ''clear'', ''delete-store'', ''delete-database'']"

section \<open>Fixtures\<close>

text \<open>
  The client of the test suite and its mocked transport, which answers every call with
  the same flag and parsed body: an object, or any other value.
\<close>

definition kvStore :: KVStore where
  "kvStore = constructor ''https://api.example.com/connect''
     \<lparr>accessToken = ''test-token'', storeName = ''test-store'', dbName = ''test-db''\<rparr>"

definition mockFetch :: "bool \<Rightarrow> obj \<Rightarrow> fetch" where
  "mockFetch ok parsed call = Response ok (Some (JObj parsed))"

definition mockFetchValue :: "bool \<Rightarrow> jsval \<Rightarrow> fetch" where
  "mockFetchValue ok parsed call = Response ok (Some parsed)"

definition registerForm :: obj where
  "registerForm =
     [(''username'', JStr ''john_doe''), (''email'', JStr ''john@example.com''),
      (''password'', JStr ''secure123'')]"

text \<open>A response that carries every field some operation projects.\<close>

definition mockResponse :: obj where
  "mockResponse =
     [(''success'', JBool True),
      (''value'', JStr ''value1''),
      (''values'', JArr [JStr ''value1'', JStr ''value2'']),
      (''keys'', JArr [JStr ''key1'', JStr ''key2'']),
      (''stores'', JArr [JStr ''store1'', JStr ''store2'']),
      (''entries'', JArr [entry_obj (''key1'', JStr ''value1'')])]"

section \<open>Objects and their encoding\<close>

lemma map_of_replace_prop_at:
  "map_of (replace_prop ps k v) x =
     (if x = k \<and> map_of ps k \<noteq> None then Some v else map_of ps x)"
  by (induction ps k v rule: replace_prop.induct) auto

lemma map_of_replace_prop:
  "k \<in> fst ` set ps \<Longrightarrow> map_of (replace_prop ps k v) = (map_of ps)(k \<mapsto> v)"
  by (simp add: fun_eq_iff map_of_replace_prop_at map_of_eq_None_iff)

lemma keys_replace_prop: "map fst (replace_prop ps k v) = map fst ps"
  by (induction ps k v rule: replace_prop.induct) auto

lemma set_insert_index: "set (insert_index n p ps) = insert p (set ps)"
  by (induction n p ps rule: insert_index.induct) (auto split: option.splits)

lemma distinct_insert_index:
  "fst p \<notin> fst ` set ps \<Longrightarrow> distinct (map fst ps) \<Longrightarrow>
   distinct (map fst (insert_index n p ps))"
  by (induction n p ps rule: insert_index.induct)
    (auto simp: set_insert_index split: option.splits)

lemma map_of_insert_index:
  "k \<notin> fst ` set ps \<Longrightarrow> map_of (insert_index n (k, v) ps) = (map_of ps)(k \<mapsto> v)"
proof (induction n "(k, v)" ps rule: insert_index.induct)
  case (1 n)
  then show ?case by simp
next
  case (2 n q ps)
  then have "fst q \<noteq> k" by auto
  with 2 show ?case
    by (cases q) (auto simp: fun_eq_iff split: option.splits)
qed

lemma map_of_append_new:
  assumes "k \<notin> fst ` set ps"
  shows "map_of (ps @ [(k, v)]) = (map_of ps)(k \<mapsto> v)"
proof -
  from assms have "map_of ps k = None"
    by (simp add: map_of_eq_None_iff)
  then show ?thesis
    by (auto simp: fun_eq_iff map_add_def split: option.splits)
qed

lemma map_of_obj_set: "map_of (obj_set ps k v) = (map_of ps)(k \<mapsto> v)"
proof (cases "k \<in> fst ` set ps")
  case True
  then show ?thesis
    by (simp add: obj_set_def map_of_replace_prop)
next
  case False
  then show ?thesis
    by (cases "array_index k")
      (simp_all add: obj_set_def map_of_insert_index map_of_append_new del: map_of_append)
qed

lemma keys_obj_set: "fst ` set (obj_set ps k v) = insert k (fst ` set ps)"
proof -
  have "fst ` set (replace_prop ps k v) = fst ` set ps"
    using keys_replace_prop [of ps k v] by (metis list.set_map)
  then show ?thesis
    by (auto simp: obj_set_def set_insert_index split: option.splits)
qed

lemma distinct_obj_set:
  "distinct (map fst ps) \<Longrightarrow> distinct (map fst (obj_set ps k v))"
  by (auto simp: obj_set_def keys_replace_prop distinct_insert_index split: option.splits)

text \<open>A name that does not start with a digit is no array index.\<close>

lemma array_index_name: "\<not> is_digit (hd k) \<Longrightarrow> array_index k = None"
  by (cases k) (auto simp: array_index_def)

lemma spread_Nil: "spread base [] = base"
  by (simp add: spread_def)

lemma spread_Cons: "spread base ((k, v) # ps) = spread (obj_set base k v) ps"
  by (simp add: spread_def)

lemma distinct_spread:
  "distinct (map fst base) \<Longrightarrow> distinct (map fst (spread base ps))"
proof (induction ps arbitrary: base)
  case Nil
  then show ?case by (simp add: spread_Nil)
next
  case (Cons p ps)
  obtain k v where p: "p = (k, v)" by (cases p)
  from Cons.prems have "distinct (map fst (obj_set base k v))"
    by (rule distinct_obj_set)
  then show ?case unfolding p spread_Cons by (rule Cons.IH)
qed

text \<open>A later assignment of the same name wins, whatever the list.\<close>

lemma map_of_spread_rev: "map_of (spread base ps) = map_of base ++ map_of (rev ps)"
proof (induction ps arbitrary: base)
  case Nil
  then show ?case by (simp add: spread_Nil)
next
  case (Cons p ps)
  obtain k v where p: "p = (k, v)" by (cases p)
  have "map_of (spread base (p # ps)) = map_of (obj_set base k v) ++ map_of (rev ps)"
    unfolding p spread_Cons by (rule Cons.IH)
  also have "\<dots> = map_of base ++ map_of (rev (p # ps))"
    unfolding p map_of_obj_set
    by (auto simp: fun_eq_iff map_add_def split: option.splits)
  finally show ?case .
qed

lemma map_of_rev_distinct: "distinct (map fst ps) \<Longrightarrow> map_of (rev ps) = map_of ps"
proof (induction ps)
  case Nil
  then show ?case by simp
next
  case (Cons p ps)
  then have "fst p \<notin> dom (map_of ps)"
    by (simp add: dom_map_of_conv_image_fst)
  with Cons show ?case
    by (cases p) (auto simp: fun_eq_iff map_add_def split: option.splits)
qed

lemma map_of_spread:
  "distinct (map fst ps) \<Longrightarrow> map_of (spread base ps) = map_of base ++ map_of ps"
  by (simp add: map_of_spread_rev map_of_rev_distinct)

lemma map_of_rev_None: "k \<notin> fst ` set ps \<Longrightarrow> map_of (rev ps) k = None"
  by (simp add: map_of_eq_None_iff)

text \<open>The fields of an encoded object with distinct names.\<close>

lemma map_of_encoded:
  "distinct (map fst ps) \<Longrightarrow>
   map_of (map (\<lambda>p. (fst p, json_value (snd p))) (filter (\<lambda>p. snd p \<noteq> JUndefined) ps)) k =
     (case map_of ps k of
        None \<Rightarrow> None
      | Some v \<Rightarrow> if v = JUndefined then None else Some (json_value v))"
proof (induction ps)
  case Nil
  then show ?case by simp
next
  case (Cons p ps)
  then have "map_of ps (fst p) = None"
    by (simp add: map_of_eq_None_iff)
  with Cons show ?case
    by (cases p) (auto split: option.splits)
qed

section \<open>The transport primitive\<close>

lemma sent_request:
  "sent (request this fetch action params) =
     \<lparr>url = apiUrl this, http_method = ''POST'',
      headers = [(''Content-Type'', ''application/json''),
                 (''Authorization'', ''Bearer '' @ accessToken this)],
      body = json_value (JObj (spread
               [(''action'', JStr action), (''dbName'', JStr (dbName this)),
                (''storeName'', JStr (storeName this))] params))\<rparr>"
  by (simp add: sent_def request_def Let_def)

lemma sent_request_fetch:
  "sent (request this fetch action params) = sent (request this fetch' action params)"
  by (simp add: sent_request)

lemma body_field_request:
  "body_field (sent (request this fetch action params)) k =
     (case (map_of [(''action'', JStr action), (''dbName'', JStr (dbName this)),
                    (''storeName'', JStr (storeName this))] ++ map_of (rev params)) k of
        None \<Rightarrow> None
      | Some v \<Rightarrow> if v = JUndefined then None else Some (json_value v))"
proof -
  let ?base = "[(''action'', JStr action), (''dbName'', JStr (dbName this)),
                (''storeName'', JStr (storeName this))]"
  have d: "distinct (map fst (spread ?base params))"
    by (rule distinct_spread) simp
  show ?thesis
    unfolding sent_request body_field_def
    by (simp only: fetch_call.simps json_value.simps jsval.case map_of_encoded [OF d] map_of_spread_rev)
qed

lemma settled_request:
  "settled (request this fetch action params) =
     (case fetch (sent (request this fetch action params)) of
        Rejected \<Rightarrow> Inl FetchRejected
      | Response ok parsed \<Rightarrow>
          (case parsed of
             None \<Rightarrow> Inl JsonRejected
           | Some data \<Rightarrow>
               if ok then Inr data
               else (case get_prop data Field_error of
                       Inl e \<Rightarrow> Inl e
                     | Inr err \<Rightarrow>
                         Inl (Error (message_of
                           (js_or err (Value (JStr ''Request failed''))))))))"
  by (simp add: sent_def settled_def request_def Let_def split: fetch_result.splits option.splits)

lemma sent_project: "sent (project f out) = sent out"
  by (simp add: sent_def project_def)

lemma sent_raw: "sent (raw out) = sent out"
  by (simp add: sent_def raw_def)

lemma settled_project:
  "settled (project f out) =
     (case settled out of Inl e \<Rightarrow> Inl e | Inr result \<Rightarrow> get_prop result f)"
  by (simp add: settled_def project_def)


text \<open>Unfolding a call down to the transport primitive.\<close>

lemmas op_defs =
  register_def login_def generateToken_def getUserInfo_def getDatabases_def
  createDatabase_def createStore_def set_op_def get_def getStores_def setMany_def
  getMany_def update_def delete_def deleteMany_def entries_def keys_def values_op_def
  clear_def deleteStore_def deleteDatabase_def

lemma run_is_request:
  "\<exists>action params. sent (run this fetch op) = sent (request this fetch action params)"
  by (cases op) (auto simp: op_defs sent_raw sent_project Let_def)

lemma distinct_body:
  "\<exists>ps. body (sent (request this fetch action params)) = JObj ps \<and> distinct (map fst ps)"
proof -
  let ?obj = "spread [(''action'', JStr action), (''dbName'', JStr (dbName this)),
                (''storeName'', JStr (storeName this))] params"
  have "distinct (map fst ?obj)"
    by (rule distinct_spread) simp
  then have "distinct (map fst (filter (\<lambda>p. snd p \<noteq> JUndefined) ?obj))"
    by (rule distinct_map_filter)
  then show ?thesis
    by (simp add: sent_request comp_def)
qed

section \<open>Projections and failures\<close>

lemma size_field: "(k, v) \<in> set ps \<Longrightarrow> size v < size (JObj ps)"
  by (induction ps) auto

lemma field_not_envelope:
  "(case map_of ps k of None \<Rightarrow> JUndefined | Some v \<Rightarrow> v) \<noteq> JObj ps"
proof (cases "map_of ps k")
  case None
  then show ?thesis by simp
next
  case (Some v)
  then have "(k, v) \<in> set ps" by (rule map_of_SomeD)
  then have "size v < size (JObj ps)" by (rule size_field)
  then have "v \<noteq> JObj ps" by auto
  with Some show ?thesis by simp
qed

lemma field_of_not_envelope: "data \<noteq> JUndefined \<Longrightarrow> field_of data k \<noteq> data"
  by (cases data) (auto simp: field_of_def field_not_envelope)

lemma get_prop_not_envelope: "get_prop data f \<noteq> Inr (Value data)"
  by (cases data) (auto simp: field_not_envelope)

lemma get_prop_defined:
  "data \<noteq> JNull \<Longrightarrow> data \<noteq> JUndefined \<Longrightarrow> \<exists>r. get_prop data f = Inr r"
  by (cases data) auto

lemma settled_project_request:
  "fetch (sent (request this fetch action params)) = Response True (Some data) \<Longrightarrow>
   settled (project f (request this fetch action params)) = get_prop data f"
  by (simp add: settled_project settled_request)


lemmas sent_run = op_defs sent_raw sent_project Let_def

section \<open>Claims\<close>

text \<open>
  C1. For every action name and every parameter object, the body that
  \<^verbatim>\<open>_request\<close> sends is the JSON encoding of the object made of \<open>action\<close>, the
  client's \<open>dbName\<close>, the client's \<open>storeName\<close> and then the parameters spread on
  top: each field is the parameter of that name when there is one, and the base field
  otherwise, so a parameter named \<open>dbName\<close> or \<open>storeName\<close> replaces the default in
  that call. Every operation sends a call built by \<^verbatim>\<open>_request\<close>, and
  \<^verbatim>\<open>createStore\<close> sends the two names it is given.
\<close>

theorem request_body_is_spread:
  assumes "distinct (map fst params)"
  shows
    "body (sent (request this fetch action params)) =
       json_value (JObj (spread
         [(''action'', JStr action), (''dbName'', JStr (dbName this)),
          (''storeName'', JStr (storeName this))] params)) \<and>
     map_of (spread
         [(''action'', JStr action), (''dbName'', JStr (dbName this)),
          (''storeName'', JStr (storeName this))] params) =
       [''action'' \<mapsto> JStr action, ''dbName'' \<mapsto> JStr (dbName this),
        ''storeName'' \<mapsto> JStr (storeName this)] ++ map_of params \<and>
     (\<forall>k. body_field (sent (request this fetch action params)) k =
        (case ([''action'' \<mapsto> JStr action, ''dbName'' \<mapsto> JStr (dbName this),
                ''storeName'' \<mapsto> JStr (storeName this)] ++ map_of params) k of
           None \<Rightarrow> None
         | Some v \<Rightarrow> if v = JUndefined then None else Some (json_value v))) \<and>
     (\<forall>op. \<exists>a ps. sent (run this fetch op) = sent (request this fetch a ps)) \<and>
     body_field (sent (createStore this fetch d s)) ''dbName'' = Some (JStr d) \<and>
     body_field (sent (createStore this fetch d s)) ''storeName'' = Some (JStr s) \<and>
     body_field (sent (createStore this fetch d s)) ''action'' = Some (JStr ''create-store'')"
proof -
  let ?base = "[(''action'', JStr action), (''dbName'', JStr (dbName this)),
                (''storeName'', JStr (storeName this))]"
  have m: "map_of ?base =
      [''action'' \<mapsto> JStr action, ''dbName'' \<mapsto> JStr (dbName this),
       ''storeName'' \<mapsto> JStr (storeName this)]"
    by (simp add: fun_eq_iff)
  have 1: "body (sent (request this fetch action params)) = json_value (JObj (spread ?base params))"
    by (simp add: sent_request)
  have 2: "map_of (spread ?base params) = map_of ?base ++ map_of params"
    using assms by (rule map_of_spread)
  have 3: "body_field (sent (request this fetch action params)) k =
        (case (map_of ?base ++ map_of params) k of
           None \<Rightarrow> None
         | Some v \<Rightarrow> if v = JUndefined then None else Some (json_value v))" for k
    unfolding body_field_request map_of_rev_distinct [OF assms] ..
  have 4: "\<exists>a ps. sent (run this fetch op) = sent (request this fetch a ps)" for op
    by (rule run_is_request)
  have 5: "body_field (sent (createStore this fetch d s)) ''dbName'' = Some (JStr d)"
    "body_field (sent (createStore this fetch d s)) ''storeName'' = Some (JStr s)"
    "body_field (sent (createStore this fetch d s)) ''action'' = Some (JStr ''create-store'')"
    by (simp_all add: createStore_def body_field_request map_add_def)
  from 1 2 3 4 5 show ?thesis unfolding m by blast
qed

text \<open>
  Witness of C1: parameters with and without a \<open>dbName\<close>, on the client of the test
  suite.
\<close>

theorem request_body_is_spread_witness:
  "distinct (map fst [(''dbName'', JStr ''other''), (''key'', JStr ''key1'')]) \<and>
   body_field (sent (request kvStore (mockFetch True []) ''get''
      [(''dbName'', JStr ''other''), (''key'', JStr ''key1'')])) ''dbName'' = Some (JStr ''other'') \<and>
   body_field (sent (request kvStore (mockFetch True []) ''get''
      [(''dbName'', JStr ''other''), (''key'', JStr ''key1'')])) ''storeName'' = Some (JStr ''test-store'') \<and>
   body_field (sent (request kvStore (mockFetch True []) ''get''
      [(''dbName'', JStr ''other''), (''key'', JStr ''key1'')])) ''action'' = Some (JStr ''get'') \<and>
   body_field (sent (request kvStore (mockFetch True []) ''get''
      [(''dbName'', JStr ''other''), (''key'', JStr ''key1'')])) ''key'' = Some (JStr ''key1'') \<and>
   body_field (sent (request kvStore (mockFetch True []) ''get''
      [(''key'', JStr ''key1'')])) ''dbName'' = Some (JStr ''test-db'')"
  using request_body_is_spread [of "[(''dbName'', JStr ''other''), (''key'', JStr ''key1'')]"
      kvStore "mockFetch True []" "''get''"]
    request_body_is_spread [of "[(''key'', JStr ''key1'')]"
      kvStore "mockFetch True []" "''get''"]
  by (simp add: kvStore_def constructor_def map_add_def)




text \<open>
  C3, as stated, fails: on a response that is \<^verbatim>\<open>ok\<close> and whose JSON body is
  \<^verbatim>\<open>null\<close>, \<^verbatim>\<open>get\<close> and \<^verbatim>\<open>getStores\<close> return nothing, they
  reject with a \<^verbatim>\<open>TypeError\<close>; and on a body that is an array,
  \<^verbatim>\<open>values\<close> resolves to a function that arrays inherit, which is no field of
  the body.
\<close>

theorem null_body_projection:
  "settled (get kvStore (mockFetchValue True JNull) ''key1'') = Inl TypeError \<and>
   settled (getStores kvStore (mockFetchValue True JNull) ''db1'') = Inl TypeError \<and>
   settled (values_op kvStore (mockFetchValue True (JArr [JStr ''value1'']))) =
     Inr (Builtin ''values'')"
  by (simp add: get_def getStores_def values_op_def settled_project settled_request
      mockFetchValue_def)

text \<open>
  C3, amended. On a response that is \<^verbatim>\<open>ok\<close> and whose parsed body is not
  \<^verbatim>\<open>null\<close>, \<^verbatim>\<open>get\<close> resolves to the \<open>value\<close> field of the body and
  \<^verbatim>\<open>getStores\<close> to its \<open>stores\<close> field; when the body is not an array
  either, \<^verbatim>\<open>keys\<close>, \<^verbatim>\<open>values\<close>, \<^verbatim>\<open>getMany\<close> and
  \<^verbatim>\<open>entries\<close> resolve to its \<open>keys\<close>, \<open>values\<close>, \<open>values\<close> and
  \<open>entries\<close> field. The field is \<^verbatim>\<open>undefined\<close> where the body has none.
  None of the six resolves to the body itself.
\<close>

theorem projections_return_field:
  "(fetch (sent (get this fetch key)) = Response True (Some data) \<and>
      data \<noteq> JNull \<and> data \<noteq> JUndefined \<longrightarrow>
      settled (get this fetch key) = Inr (Value (field_of data ''value'')) \<and>
      settled (get this fetch key) \<noteq> Inr (Value data)) \<and>
   (fetch (sent (getStores this fetch d)) = Response True (Some data) \<and>
      data \<noteq> JNull \<and> data \<noteq> JUndefined \<longrightarrow>
      settled (getStores this fetch d) = Inr (Value (field_of data ''stores'')) \<and>
      settled (getStores this fetch d) \<noteq> Inr (Value data)) \<and>
   (fetch (sent (keys this fetch)) = Response True (Some data) \<and>
      data \<noteq> JNull \<and> data \<noteq> JUndefined \<and> (\<forall>xs. data \<noteq> JArr xs) \<longrightarrow>
      settled (keys this fetch) = Inr (Value (field_of data ''keys'')) \<and>
      settled (keys this fetch) \<noteq> Inr (Value data)) \<and>
   (fetch (sent (values_op this fetch)) = Response True (Some data) \<and>
      data \<noteq> JNull \<and> data \<noteq> JUndefined \<and> (\<forall>xs. data \<noteq> JArr xs) \<longrightarrow>
      settled (values_op this fetch) = Inr (Value (field_of data ''values'')) \<and>
      settled (values_op this fetch) \<noteq> Inr (Value data)) \<and>
   (fetch (sent (getMany this fetch ks)) = Response True (Some data) \<and>
      data \<noteq> JNull \<and> data \<noteq> JUndefined \<and> (\<forall>xs. data \<noteq> JArr xs) \<longrightarrow>
      settled (getMany this fetch ks) = Inr (Value (field_of data ''values'')) \<and>
      settled (getMany this fetch ks) \<noteq> Inr (Value data)) \<and>
   (fetch (sent (entries this fetch d' s')) = Response True (Some data) \<and>
      data \<noteq> JNull \<and> data \<noteq> JUndefined \<and> (\<forall>xs. data \<noteq> JArr xs) \<longrightarrow>
      settled (entries this fetch d' s') = Inr (Value (field_of data ''entries'')) \<and>
      settled (entries this fetch d' s') \<noteq> Inr (Value data))"
proof -
  have f: "get_prop data f = Inr (Value (field_of data (field_name f)))"
    if "data \<noteq> JNull" "data \<noteq> JUndefined"
      "(\<forall>xs. data \<noteq> JArr xs) \<or> f = Field_value \<or> f = Field_stores" for f
    using that by (cases data) (auto simp: field_of_def)
  show ?thesis
    by (simp add: get_def keys_def values_op_def getMany_def getStores_def entries_def
        Let_def sent_project settled_project_request field_of_not_envelope f)
qed

text \<open>
  Witness of the amended C3: one response carrying all five fields, and for
  \<^verbatim>\<open>get\<close> a body that is an array.
\<close>

theorem projections_return_field_witness:
  "settled (get kvStore (mockFetch True mockResponse) ''key1'') = Inr (Value (JStr ''value1'')) \<and>
   settled (get kvStore (mockFetchValue True (JArr [])) ''key1'') = Inr (Value JUndefined) \<and>
   settled (keys kvStore (mockFetch True mockResponse)) =
     Inr (Value (JArr [JStr ''key1'', JStr ''key2''])) \<and>
   settled (values_op kvStore (mockFetch True mockResponse)) =
     Inr (Value (JArr [JStr ''value1'', JStr ''value2''])) \<and>
   settled (getMany kvStore (mockFetch True mockResponse) [''key1'', ''key2'']) =
     Inr (Value (JArr [JStr ''value1'', JStr ''value2''])) \<and>
   settled (getStores kvStore (mockFetch True mockResponse) ''db1'') =
     Inr (Value (JArr [JStr ''store1'', JStr ''store2''])) \<and>
   settled (entries kvStore (mockFetch True mockResponse) (JStr ''db1'') (JStr ''store1'')) =
     Inr (Value (JArr [entry_obj (''key1'', JStr ''value1'')]))"
  using projections_return_field [of "mockFetch True mockResponse" kvStore "''key1''"
      "JObj mockResponse" "''db1''" "[''key1'', ''key2'']" "JStr ''db1''" "JStr ''store1''"]
    projections_return_field [of "mockFetchValue True (JArr [])" kvStore "''key1''" "JArr []"]
  by (simp add: mockFetch_def mockFetchValue_def mockResponse_def field_of_def)

text \<open>
  C4, as stated, fails: \<^verbatim>\<open>register\<close> is not among the five excepted
  operations, and form data with a \<open>dbName\<close> field replaces the client's default.
\<close>

theorem register_overrides_defaults:
  "body_field (sent (run kvStore (mockFetch True [])
      (Register (registerForm @ [(''dbName'', JStr ''other-db'')])))) ''dbName'' =
     Some (JStr ''other-db'') \<and>
   body_field (sent (run kvStore (mockFetch True [])
      (Register (registerForm @ [(''dbName'', JStr ''other-db'')])))) ''dbName'' \<noteq>
     Some (JStr (dbName kvStore))"
  by (simp add: sent_run body_field_request registerForm_def kvStore_def constructor_def
      map_add_def)

text \<open>
  C4, amended. For every operation other than \<^verbatim>\<open>createStore\<close>,
  \<^verbatim>\<open>getStores\<close>, \<^verbatim>\<open>entries\<close>, \<^verbatim>\<open>deleteStore\<close> and
  \<^verbatim>\<open>deleteDatabase\<close>, and all its arguments, the \<open>dbName\<close> field of the body
  is the client's default unless the form data of \<^verbatim>\<open>register\<close> or
  \<^verbatim>\<open>login\<close> has a field of that name, and likewise for \<open>storeName\<close>.
\<close>

theorem default_names_sent:
  assumes "\<not> takes_names op"
  shows
    "(''dbName'' \<notin> fst ` set (form_data op) \<longrightarrow>
        body_field (sent (run this fetch op)) ''dbName'' = Some (JStr (dbName this))) \<and>
     (''storeName'' \<notin> fst ` set (form_data op) \<longrightarrow>
        body_field (sent (run this fetch op)) ''storeName'' = Some (JStr (storeName this)))"
  using assms
  by (cases op)
    (simp_all add: sent_run body_field_request map_add_def map_of_rev_None)

text \<open>
  Witness of the amended C4: \<^verbatim>\<open>set\<close>, and \<^verbatim>\<open>register\<close> with the
  three declared fields only.
\<close>

theorem default_names_sent_witness:
  "body_field (sent (run kvStore (mockFetch True []) (Set ''key1'' (JStr ''value1''))))
      ''dbName'' = Some (JStr ''test-db'') \<and>
   body_field (sent (run kvStore (mockFetch True []) (Set ''key1'' (JStr ''value1''))))
      ''storeName'' = Some (JStr ''test-store'') \<and>
   body_field (sent (run kvStore (mockFetch True []) (Register registerForm)))
      ''dbName'' = Some (JStr ''test-db'') \<and>
   body_field (sent (run kvStore (mockFetch True []) (Register registerForm)))
      ''storeName'' = Some (JStr ''test-store'')"
  using default_names_sent [of "Set ''key1'' (JStr ''value1'')" kvStore "mockFetch True []"]
    default_names_sent [of "Register registerForm" kvStore "mockFetch True []"]
  by (simp add: registerForm_def kvStore_def constructor_def)

text \<open>
  C5. A client constructed with endpoint \<^verbatim>\<open>"https://x/connect"\<close> and options
  \<^verbatim>\<open>{accessToken:"t", storeName:"s", dbName:"d"}\<close> sends, on
  \<^verbatim>\<open>createDatabase("newdb")\<close>, the body
  \<^verbatim>\<open>{action:"create-database", dbName:"d", storeName:"s", name:"newdb"}\<close> and no
  other field, whatever the transport answers.
\<close>

theorem createDatabase_scenario:
  "body (sent (createDatabase
      (constructor ''https://x/connect''
         \<lparr>accessToken = ''t'', storeName = ''s'', dbName = ''d''\<rparr>)
      fetch ''newdb'')) =
     JObj [(''action'', JStr ''create-database''), (''dbName'', JStr ''d''),
           (''storeName'', JStr ''s''), (''name'', JStr ''newdb'')]"
  by (simp add: createDatabase_def sent_request constructor_def spread_def obj_set_def
      array_index_name is_digit_def)

text \<open>
  C6. In \<^verbatim>\<open>entries(dbName, storeName)\<close> an argument that is falsy (the
  empty string, for a string) is replaced by the client's default in the body, each
  argument on its own, and a non-empty string is sent as given.
\<close>

theorem entries_fallback:
  "(\<not> truthy d \<longrightarrow>
      body_field (sent (entries this fetch d s)) ''dbName'' = Some (JStr (dbName this))) \<and>
   (\<not> truthy s \<longrightarrow>
      body_field (sent (entries this fetch d s)) ''storeName'' = Some (JStr (storeName this))) \<and>
   (x \<noteq> [] \<longrightarrow>
      body_field (sent (entries this fetch (JStr x) s)) ''dbName'' = Some (JStr x)) \<and>
   (y \<noteq> [] \<longrightarrow>
      body_field (sent (entries this fetch d (JStr y))) ''storeName'' = Some (JStr y)) \<and>
   body_field (sent (run this fetch (Entries x y))) ''dbName'' =
     Some (JStr (if x = [] then dbName this else x)) \<and>
   body_field (sent (run this fetch (Entries x y))) ''storeName'' =
     Some (JStr (if y = [] then storeName this else y))"
  by (simp add: entries_def Let_def sent_project body_field_request map_add_def)

text \<open>
  Witness of C6: an absent and an empty argument beside a given one, and both empty.
\<close>

theorem entries_fallback_witness:
  "body_field (sent (entries kvStore (mockFetch True []) JUndefined (JStr ''store1'')))
      ''dbName'' = Some (JStr ''test-db'') \<and>
   body_field (sent (entries kvStore (mockFetch True []) (JStr ''db1'') (JStr [])))
      ''storeName'' = Some (JStr ''test-store'') \<and>
   body_field (sent (entries kvStore (mockFetch True []) (JStr ''db1'') (JStr [])))
      ''dbName'' = Some (JStr ''db1'') \<and>
   body_field (sent (entries kvStore (mockFetch True []) JUndefined (JStr ''store1'')))
      ''storeName'' = Some (JStr ''store1'') \<and>
   body_field (sent (run kvStore (mockFetch True []) (Entries [] []))) ''dbName'' =
      Some (JStr ''test-db'') \<and>
   body_field (sent (run kvStore (mockFetch True []) (Entries [] []))) ''storeName'' =
      Some (JStr ''test-store'')"
  using entries_fallback [of JUndefined kvStore "mockFetch True []" "JStr ''store1''"
      "''db1''" "''store1''"]
    entries_fallback [of "JStr ''db1''" kvStore "mockFetch True []" "JStr []" "''db1''" "''store1''"]
    entries_fallback [of JNull kvStore "mockFetch True []" JNull "[]" "[]"]
  by (simp add: kvStore_def constructor_def)

text \<open>
  C7, as stated, fails: \<^verbatim>\<open>createStore("", "")\<close> sends two empty names, and
  a client configured with empty names sends them.
\<close>

theorem empty_names_are_sent:
  "body_field (sent (run kvStore (mockFetch True []) (CreateStore [] []))) ''dbName'' =
     Some (JStr []) \<and>
   body_field (sent (run kvStore (mockFetch True []) (CreateStore [] []))) ''storeName'' =
     Some (JStr []) \<and>
   body_field (sent (run
      (constructor ''https://api.example.com/connect''
         \<lparr>accessToken = ''test-token'', storeName = [], dbName = []\<rparr>)
      (mockFetch True []) Keys)) ''dbName'' = Some (JStr [])"
  by (simp add: sent_run body_field_request constructor_def map_add_def)

text \<open>
  C7, amended. For every operation, the \<open>dbName\<close> and \<open>storeName\<close> fields of
  the body are non-empty strings whenever the client's two defaults are non-empty,
  every name given to \<^verbatim>\<open>createStore\<close>, \<^verbatim>\<open>getStores\<close>,
  \<^verbatim>\<open>deleteStore\<close> or \<^verbatim>\<open>deleteDatabase\<close> is non-empty, and the form
  data of \<^verbatim>\<open>register\<close> or \<^verbatim>\<open>login\<close> has no field of either name;
  for an operation that takes no name they are then the two defaults.
\<close>

theorem names_nonempty:
  assumes "dbName this \<noteq> []" and "storeName this \<noteq> []"
    and "[] \<notin> set (names_given op)"
    and "''dbName'' \<notin> fst ` set (form_data op)"
    and "''storeName'' \<notin> fst ` set (form_data op)"
  shows "\<exists>d s. body_field (sent (run this fetch op)) ''dbName'' = Some (JStr d) \<and> d \<noteq> [] \<and>
     body_field (sent (run this fetch op)) ''storeName'' = Some (JStr s) \<and> s \<noteq> [] \<and>
     (\<not> takes_names op \<longrightarrow> d = dbName this \<and> s = storeName this)"
  using assms
  by (cases op)
    (auto simp: sent_run body_field_request map_add_def map_of_rev_None)

text \<open>
  Witness of the amended C7: \<^verbatim>\<open>createStore\<close> with two names, and
  \<^verbatim>\<open>entries\<close> with none.
\<close>

theorem names_nonempty_witness:
  "body_field (sent (run kvStore (mockFetch True []) (CreateStore ''db1'' ''store1'')))
      ''dbName'' = Some (JStr ''db1'') \<and>
   body_field (sent (run kvStore (mockFetch True []) (CreateStore ''db1'' ''store1'')))
      ''storeName'' = Some (JStr ''store1'') \<and>
   body_field (sent (run kvStore (mockFetch True []) (Entries [] []))) ''dbName'' =
      Some (JStr ''test-db'')"
  using names_nonempty [of kvStore "CreateStore ''db1'' ''store1''" "mockFetch True []"]
    names_nonempty [of kvStore "Entries [] []" "mockFetch True []"]
  by (simp add: sent_run body_field_request kvStore_def constructor_def map_add_def)

text \<open>
  C8, as stated, fails: form data with an \<open>action\<close> field replaces the action of
  \<^verbatim>\<open>register\<close> and \<^verbatim>\<open>login\<close>, by the empty string or by a name
  outside the catalogue.
\<close>

theorem form_data_overrides_action:
  "body_field (sent (run kvStore (mockFetch True [])
      (Register (registerForm @ [(''action'', JStr [])])))) ''action'' = Some (JStr []) \<and>
   body_field (sent (run kvStore (mockFetch True [])
      (Login [(''username'', JStr ''john_doe''), (''password'', JStr ''secure123''),
              (''action'', JStr ''drop-everything'')]))) ''action'' =
     Some (JStr ''drop-everything'') \<and>
   ''drop-everything'' \<notin> set actions \<and> [] \<notin> set actions"
  by (simp add: sent_run body_field_request registerForm_def actions_def map_add_def)

text \<open>
  C8, amended. For every operation and all its arguments, when the form data of
  \<^verbatim>\<open>register\<close> or \<^verbatim>\<open>login\<close> has no field named \<open>action\<close>, the body
  is an object with distinct field names whose \<open>action\<close> field is a non-empty name
  of the catalogue.
\<close>

theorem action_is_fixed:
  assumes "''action'' \<notin> fst ` set (form_data op)"
  shows "\<exists>a ps. body (sent (run this fetch op)) = JObj ps \<and> distinct (map fst ps) \<and>
     map_of ps ''action'' = Some (JStr a) \<and> a \<in> set actions \<and> a \<noteq> []"
proof -
  obtain act params where r: "sent (run this fetch op) = sent (request this fetch act params)"
    using run_is_request by blast
  obtain ps where ps: "body (sent (run this fetch op)) = JObj ps" "distinct (map fst ps)"
    unfolding r using distinct_body by blast
  have "\<exists>a. body_field (sent (run this fetch op)) ''action'' = Some (JStr a) \<and>
      a \<in> set actions \<and> a \<noteq> []"
    using assms
    by (cases op)
      (simp_all add: sent_run body_field_request map_add_def map_of_rev_None actions_def)
  then show ?thesis
    using ps by (auto simp: body_field_def)
qed

text \<open>
  Witness of the amended C8: \<^verbatim>\<open>register\<close> and \<^verbatim>\<open>deleteMany\<close>.
\<close>

theorem action_is_fixed_witness:
  "body_field (sent (run kvStore (mockFetch True []) (Register registerForm))) ''action'' =
     Some (JStr ''register'') \<and>
   body_field (sent (run kvStore (mockFetch True []) (DeleteMany [''key1'', ''key2'']))) ''action'' =
     Some (JStr ''deleteMany'')"
  using action_is_fixed [of "Register registerForm" kvStore "mockFetch True []"]
    action_is_fixed [of "DeleteMany [''key1'', ''key2'']" kvStore "mockFetch True []"]
  by (simp add: sent_run body_field_request registerForm_def map_add_def)

text \<open>
  C9. The factory \<^verbatim>\<open>store(apiUrl, options)\<close> is the constructor: the instance it
  returns is the same value, with the same four fields, and every operation on it
  sends the same call and settles the same way.
\<close>

theorem store_is_constructor:
  "store endpoint options = constructor endpoint options \<and>
   apiUrl (store endpoint options) = endpoint \<and>
   accessToken (store endpoint options) = accessToken options \<and>
   storeName (store endpoint options) = storeName options \<and>
   dbName (store endpoint options) = dbName options \<and>
   run (store endpoint options) fetch op = run (constructor endpoint options) fetch op"
  by (simp add: store_def constructor_def)

text \<open>
  C10, as stated, fails: \<^verbatim>\<open>null\<close> is well-formed JSON without any field, and on
  a response that is \<^verbatim>\<open>ok\<close> with that body \<^verbatim>\<open>getMany\<close> and
  \<^verbatim>\<open>entries\<close> reject with a \<^verbatim>\<open>TypeError\<close>; and on the body
  \<^verbatim>\<open>[]\<close>, which has no \<open>keys\<close> field, \<^verbatim>\<open>keys\<close> resolves to a
  function and not to \<^verbatim>\<open>undefined\<close>.
\<close>

theorem null_body_rejects:
  "settled (getMany kvStore (mockFetchValue True JNull) [''key1'']) = Inl TypeError \<and>
   settled (entries kvStore (mockFetchValue True JNull) (JStr ''db1'') (JStr ''store1'')) =
     Inl TypeError \<and>
   settled (keys kvStore (mockFetchValue True (JArr []))) = Inr (Builtin ''keys'') \<and>
   settled (keys kvStore (mockFetchValue True (JArr []))) \<noteq> Inr (Value JUndefined)"
  by (simp add: getMany_def entries_def keys_def Let_def settled_project settled_request
      mockFetchValue_def)

text \<open>
  C10, amended. On a response that is \<^verbatim>\<open>ok\<close> and whose parsed body is not
  \<^verbatim>\<open>null\<close>, none of \<^verbatim>\<open>get\<close>, \<^verbatim>\<open>getMany\<close>,
  \<^verbatim>\<open>getStores\<close>, \<^verbatim>\<open>keys\<close>, \<^verbatim>\<open>values\<close> and
  \<^verbatim>\<open>entries\<close> rejects. When the body is an object without the expected field,
  or a string, a number or a boolean, each resolves to \<^verbatim>\<open>undefined\<close>; so do
  \<^verbatim>\<open>get\<close> and \<^verbatim>\<open>getStores\<close> when the body is an array.
\<close>

theorem missing_field_is_undefined:
  "(fetch (sent (get this fetch key)) = Response True (Some data) \<and>
      data \<noteq> JNull \<and> data \<noteq> JUndefined \<longrightarrow>
      (\<exists>r. settled (get this fetch key) = Inr r) \<and>
      ((\<forall>ps. data = JObj ps \<longrightarrow> map_of ps ''value'' = None) \<longrightarrow>
         settled (get this fetch key) = Inr (Value JUndefined))) \<and>
   (fetch (sent (getStores this fetch d)) = Response True (Some data) \<and>
      data \<noteq> JNull \<and> data \<noteq> JUndefined \<longrightarrow>
      (\<exists>r. settled (getStores this fetch d) = Inr r) \<and>
      ((\<forall>ps. data = JObj ps \<longrightarrow> map_of ps ''stores'' = None) \<longrightarrow>
         settled (getStores this fetch d) = Inr (Value JUndefined))) \<and>
   (fetch (sent (getMany this fetch ks)) = Response True (Some data) \<and>
      data \<noteq> JNull \<and> data \<noteq> JUndefined \<longrightarrow>
      (\<exists>r. settled (getMany this fetch ks) = Inr r) \<and>
      ((\<forall>ps. data = JObj ps \<longrightarrow> map_of ps ''values'' = None) \<and> (\<forall>xs. data \<noteq> JArr xs) \<longrightarrow>
         settled (getMany this fetch ks) = Inr (Value JUndefined))) \<and>
   (fetch (sent (keys this fetch)) = Response True (Some data) \<and>
      data \<noteq> JNull \<and> data \<noteq> JUndefined \<longrightarrow>
      (\<exists>r. settled (keys this fetch) = Inr r) \<and>
      ((\<forall>ps. data = JObj ps \<longrightarrow> map_of ps ''keys'' = None) \<and> (\<forall>xs. data \<noteq> JArr xs) \<longrightarrow>
         settled (keys this fetch) = Inr (Value JUndefined))) \<and>
   (fetch (sent (values_op this fetch)) = Response True (Some data) \<and>
      data \<noteq> JNull \<and> data \<noteq> JUndefined \<longrightarrow>
      (\<exists>r. settled (values_op this fetch) = Inr r) \<and>
      ((\<forall>ps. data = JObj ps \<longrightarrow> map_of ps ''values'' = None) \<and> (\<forall>xs. data \<noteq> JArr xs) \<longrightarrow>
         settled (values_op this fetch) = Inr (Value JUndefined))) \<and>
   (fetch (sent (entries this fetch d' s')) = Response True (Some data) \<and>
      data \<noteq> JNull \<and> data \<noteq> JUndefined \<longrightarrow>
      (\<exists>r. settled (entries this fetch d' s') = Inr r) \<and>
      ((\<forall>ps. data = JObj ps \<longrightarrow> map_of ps ''entries'' = None) \<and> (\<forall>xs. data \<noteq> JArr xs) \<longrightarrow>
         settled (entries this fetch d' s') = Inr (Value JUndefined)))"
proof -
  have u: "get_prop data f = Inr (Value JUndefined)"
    if "\<forall>ps. data = JObj ps \<longrightarrow> map_of ps (field_name f) = None"
      "data \<noteq> JNull" "data \<noteq> JUndefined"
      "(\<forall>xs. data \<noteq> JArr xs) \<or> f = Field_value \<or> f = Field_stores" for f
    using that by (cases data) auto
  show ?thesis
    by (simp add: get_def keys_def values_op_def getMany_def getStores_def entries_def
        Let_def sent_project settled_project_request get_prop_defined u)
qed

text \<open>
  Witness of the amended C10: a successful response with the \<open>success\<close> flag only,
  and for \<^verbatim>\<open>keys\<close> a body that is a string.
\<close>

theorem missing_field_is_undefined_witness:
  "settled (get kvStore (mockFetch True [(''success'', JBool True)]) ''key1'') =
     Inr (Value JUndefined) \<and>
   settled (getMany kvStore (mockFetch True [(''success'', JBool True)]) [''key1'']) =
     Inr (Value JUndefined) \<and>
   settled (getStores kvStore (mockFetch True [(''success'', JBool True)]) ''db1'') =
     Inr (Value JUndefined) \<and>
   settled (keys kvStore (mockFetch True [(''success'', JBool True)])) =
     Inr (Value JUndefined) \<and>
   settled (values_op kvStore (mockFetch True [(''success'', JBool True)])) =
     Inr (Value JUndefined) \<and>
   settled (entries kvStore (mockFetch True [(''success'', JBool True)])
      (JStr ''db1'') (JStr ''store1'')) = Inr (Value JUndefined) \<and>
   settled (keys kvStore (mockFetchValue True (JStr ''ok''))) = Inr (Value JUndefined)"
  using missing_field_is_undefined [of "mockFetch True [(''success'', JBool True)]" kvStore
      "''key1''" "JObj [(''success'', JBool True)]" "''db1''" "[''key1'']"
      "JStr ''db1''" "JStr ''store1''"]
    missing_field_is_undefined [of "mockFetchValue True (JStr ''ok'')" kvStore
      "''key1''" "JStr ''ok''"]
  by (simp add: mockFetch_def mockFetchValue_def)

end
